theory Spec2Isabelle
  imports Complex_Main "HOL-Library.AList"
begin

section \<open>Python values\<close>

text \<open>
  The intent fields, the answers of the completion service once parsed as JSON, the job
  candidates and the results handed back to the caller are all dynamically typed Python
  values. A dictionary is an association list in insertion order; writing a key
  (\<open>d[k] = v\<close>) is \<open>AList.update\<close>, which replaces the value of a key in place and
  appends a key that is new, as a Python dict does. Floats are only carried around
  (the similarity score), never computed with, and are represented by rationals.
\<close>

datatype pyval =
    PNone
  | PBool bool
  | PInt int
  | PFloat rat
  | PStr string
  | PList "pyval list"
  | PDict "(string \<times> pyval) list"

type_synonym pydict = "(string \<times> pyval) list"

text \<open>The exceptions (all subclasses of \<open>Exception\<close>) a call can raise.\<close>

datatype exn =
    AttributeError
  | KeyError
  | TypeError
  | JSONDecodeError
  | UnboundLocalError
  | ServiceError string

text \<open>Python truthiness, as tested by \<open>if v:\<close>.\<close>

fun truthy :: "pyval \<Rightarrow> bool" where
  "truthy PNone = False"
| "truthy (PBool b) = b"
| "truthy (PInt i) = (i \<noteq> 0)"
| "truthy (PFloat r) = (r \<noteq> 0)"
| "truthy (PStr s) = (s \<noteq> [])"
| "truthy (PList xs) = (xs \<noteq> [])"
| "truthy (PDict kvs) = (kvs \<noteq> [])"

text \<open>\<open>d.get(k)\<close> and \<open>d.get(k, default)\<close>.\<close>

definition dict_get_default :: "pydict \<Rightarrow> string \<Rightarrow> pyval \<Rightarrow> pyval" where
  "dict_get_default d k dflt = (case map_of d k of None \<Rightarrow> dflt | Some v \<Rightarrow> v)"

definition dict_get :: "pydict \<Rightarrow> string \<Rightarrow> pyval" where
  "dict_get d k = dict_get_default d k PNone"

text \<open>
  \<open>str.strip()\<close>: removes leading and trailing whitespace. The whitespace characters of
  ASCII are the ones of \<open>str.isspace\<close> below code point 128.
\<close>

definition is_space :: "char \<Rightarrow> bool" where
  "is_space c = (of_char c \<in> {9, 10, 11, 12, 13, 28, 29, 30, 31, 32 :: nat})"

definition strip :: "string \<Rightarrow> string" where
  "strip s = rev (dropWhile is_space (rev (dropWhile is_space s)))"

text \<open>\<open>sep.join(xs)\<close>.\<close>

fun join :: "string \<Rightarrow> string list \<Rightarrow> string" where
  "join sep [] = []"
| "join sep [x] = x"
| "join sep (x # y # ys) = x @ sep @ join sep (y # ys)"

section \<open>Session store (app/memory.py)\<close>

record session =
  intent :: pydict
  attempts :: int
  chat_history :: "pyval list"

type_synonym user_sessions = "string \<rightharpoonup> session"

definition new_session :: session where
  "new_session =
     \<lparr> intent = [(''role'', PNone), (''location'', PNone), (''salary'', PNone),
                  (''domain'', PNone), (''remote'', PNone)],
       attempts = 0,
       chat_history = [] \<rparr>"

text \<open>
  \<open>get_session\<close> creates the session on first reference and returns it; the session it
  returns is the object held by the store, so the store is returned with it.
\<close>

definition get_session :: "string \<Rightarrow> user_sessions \<Rightarrow> session \<times> user_sessions" where
  "get_session user_id store =
     (case store user_id of
        None \<Rightarrow> (new_session, store(user_id \<mapsto> new_session))
      | Some s \<Rightarrow> (s, store))"

definition append_chat_history ::
    "string \<Rightarrow> string \<Rightarrow> pyval \<Rightarrow> user_sessions \<Rightarrow> user_sessions" where
  "append_chat_history user_id role msg store =
     (let (s, store') = get_session user_id store
      in store'(user_id \<mapsto>
           s\<lparr>chat_history := chat_history s @ [PDict [(''role'', PStr role), (''message'', msg)]]\<rparr>))"

definition reset_session :: "string \<Rightarrow> user_sessions \<Rightarrow> user_sessions" where
  "reset_session user_id store = store(user_id := None)"

section \<open>Intent extractor (app/intent_parser.py)\<close>

text \<open>
  The completion service is outside the program: every call is given its outcome, an
  exception or the value the JSON output parser produced. One turn of the conversation
  carries the behaviour of the two chains at that moment.
\<close>

record chains =
  intent_chain :: "string \<Rightarrow> exn + pyval"
  followup_chain :: "string \<Rightarrow> pydict \<Rightarrow> exn + string"

text \<open>\<open>result.get(k)\<close> on the parsed answer: only a dict has \<open>get\<close>.\<close>

fun py_get :: "pyval \<Rightarrow> string \<Rightarrow> exn + pyval" where
  "py_get (PDict d) k = Inr (dict_get d k)"
| "py_get _ k = Inl AttributeError"

text \<open>The body of the \<open>try\<close> block of \<open>parse_intent\<close>.\<close>

definition parse_intent_try :: "(string \<Rightarrow> exn + pyval) \<Rightarrow> string \<Rightarrow> exn + pydict" where
  "parse_intent_try chain user_input =
     (case chain user_input of
        Inl e \<Rightarrow> Inl e
      | Inr result \<Rightarrow>
          (case py_get result ''role'' of Inl e \<Rightarrow> Inl e | Inr role \<Rightarrow>
          (case py_get result ''location'' of Inl e \<Rightarrow> Inl e | Inr location \<Rightarrow>
          (case py_get result ''salary'' of Inl e \<Rightarrow> Inl e | Inr salary \<Rightarrow>
          (case py_get result ''domain'' of Inl e \<Rightarrow> Inl e | Inr dmn \<Rightarrow>
          (case py_get result ''remote'' of Inl e \<Rightarrow> Inl e | Inr remote \<Rightarrow>
             Inr [(''role'', role), (''location'', location), (''salary'', salary),
                  (''domain'', dmn), (''remote'', remote)]))))))"

definition parse_intent :: "(string \<Rightarrow> exn + pyval) \<Rightarrow> string \<Rightarrow> exn + pydict" where
  "parse_intent chain user_input =
     (case parse_intent_try chain user_input of
        Inr full_intent \<Rightarrow> Inr full_intent
      | Inl e \<Rightarrow>
          Inr [(''role'', PNone), (''location'', PNone), (''salary'', PNone),
               (''domain'', PNone), (''remote'', PNone)])"

section \<open>Follow-up generator (app/followup.py)\<close>

definition REQUIRED_FIELDS :: "string set" where
  "REQUIRED_FIELDS = {''role'', ''location'', ''salary''}"

definition get_missing_fields :: "pydict \<Rightarrow> string list" where
  "get_missing_fields it = map fst (filter (\<lambda>(k, v). v = PNone) it)"

definition is_critical_missing :: "pydict \<Rightarrow> bool" where
  "is_critical_missing it =
     list_ex (\<lambda>(field, val). field \<in> REQUIRED_FIELDS) (filter (\<lambda>(field, val). val = PNone) it)"

definition get_followup_question :: "(string \<Rightarrow> pydict \<Rightarrow> exn + string) \<Rightarrow> pydict \<Rightarrow> pyval" where
  "get_followup_question chain it =
     (let missing_fields = get_missing_fields it
      in if missing_fields = [] then PNone
         else (case chain (join '', '' missing_fields) it of
                 Inr content \<Rightarrow> PStr (strip content)
               | Inl e \<Rightarrow> PNone))"

section \<open>Intent orchestrator (app/intent_handler.py)\<close>

definition MAX_ATTEMPTS :: int where
  "MAX_ATTEMPTS = 3"

text \<open>The merge loop: \<open>for k, v in new_intent.items(): if v: session["intent"][k] = v\<close>.\<close>

fun merge_intent :: "pydict \<Rightarrow> pydict \<Rightarrow> pydict" where
  "merge_intent it [] = it"
| "merge_intent it ((k, v) # kvs) =
     merge_intent (if truthy v then AList.update k v it else it) kvs"

definition error_message :: string where
  "error_message =
     ''I'' @ [CHR 0x27] @ ''m sorry, your request is still unclear after 3 tries. Please rephrase or try again.''"

definition refine_message :: string where
  "refine_message =
     ''I have found some matches, but I can refine them further with more information.''"

text \<open>
  One call of \<open>handle_user_query\<close>: the value returned (or the exception raised) and the
  store after the call. The local \<open>session\<close> is the object in the store, so every
  mutation of it is written back under \<open>user_id\<close>.
\<close>

definition handle_user_query ::
    "chains \<Rightarrow> string \<Rightarrow> string \<Rightarrow> user_sessions \<Rightarrow> (exn + pydict) \<times> user_sessions" where
  "handle_user_query env user_input user_id store0 =
     (let store1 = snd (get_session user_id store0);
          store2 = append_chat_history user_id ''user'' (PStr user_input) store1;
          s = fst (get_session user_id store2)
      in case parse_intent (intent_chain env) user_input of
           Inl e \<Rightarrow> (Inl e, store2)
         | Inr new_intent \<Rightarrow>
             (let s1 = s\<lparr>intent := merge_intent (intent s) new_intent\<rparr>
              in if is_critical_missing (intent s1) then
                   (let s2 = s1\<lparr>attempts := attempts s1 + 1\<rparr>
                    in if attempts s2 \<ge> MAX_ATTEMPTS then
                         (Inr [(''type'', PStr ''error''),
                               (''message'', PStr error_message),
                               (''intent'', PDict (intent s2))],
                          store2(user_id \<mapsto> s2))
                       else
                         (let followup = get_followup_question (followup_chain env) (intent s2);
                              store3 = append_chat_history user_id ''assistant'' followup
                                         (store2(user_id \<mapsto> s2))
                          in (Inr [(''type'', PStr ''followup_required''),
                                   (''followup'', followup),
                                   (''intent'', PDict (intent s2))],
                              store3)))
                 else
                   (let followup_optional = get_followup_question (followup_chain env) (intent s1);
                        message = (if truthy followup_optional then PStr refine_message else PNone)
                    in (Inr [(''type'', PStr ''intent_complete''),
                             (''intent'', PDict (intent s1)),
                             (''followup'', followup_optional),
                             (''message'', message),
                             (''chat_history'', PList (chat_history s1))],
                        store2(user_id \<mapsto> s1)))))"


text \<open>The \<open>type\<close> entry of a returned result (\<open>None\<close> when the call raised).\<close>

definition result_type :: "exn + pydict \<Rightarrow> pyval" where
  "result_type r = (case r of Inl e \<Rightarrow> PNone | Inr d \<Rightarrow> dict_get d ''type'')"

definition result_message :: "exn + pydict \<Rightarrow> pyval" where
  "result_message r = (case r of Inl e \<Rightarrow> PNone | Inr d \<Rightarrow> dict_get d ''message'')"

text \<open>The session a later \<open>get_session\<close> would hand out: the stored one, or a fresh one.\<close>

definition session_of :: "string \<Rightarrow> user_sessions \<Rightarrow> session" where
  "session_of user_id store = fst (get_session user_id store)"

section \<open>Strings\<close>

text \<open>
  The string methods the retriever and the re-ranker call. A string is a list of
  characters; \<open>lower\<close> maps the capital letters of ASCII to the small ones and leaves
  every other character as it is.
\<close>

definition lower_char :: "char \<Rightarrow> char" where
  "lower_char c =
     (let n = (of_char c :: nat) in if 65 \<le> n \<and> n \<le> 90 then char_of (n + 32) else c)"

definition lower :: "string \<Rightarrow> string" where
  "lower s = map lower_char s"

text \<open>\<open>s.startswith(p)\<close>, \<open>s.endswith(p)\<close> and \<open>needle in hay\<close>.\<close>

definition startswith :: "string \<Rightarrow> string \<Rightarrow> bool" where
  "startswith s p = (take (length p) s = p)"

definition endswith :: "string \<Rightarrow> string \<Rightarrow> bool" where
  "endswith s p = startswith (rev s) (rev p)"

fun py_in :: "string \<Rightarrow> string \<Rightarrow> bool" where
  "py_in needle [] = (needle = [])"
| "py_in needle (c # cs) = (startswith (c # cs) needle \<or> py_in needle cs)"

text \<open>
  \<open>s.replace(old, new)\<close>: the occurrences of \<open>old\<close> are replaced from left to right,
  without overlap; an empty \<open>old\<close> matches before every character and at the end.
\<close>

function replace_str :: "string \<Rightarrow> string \<Rightarrow> string \<Rightarrow> string" where
  "replace_str old new s =
     (if old = [] then new @ concat (map (\<lambda>c. c # new) s)
      else if s = [] then []
      else if startswith s old then new @ replace_str old new (drop (length old) s)
      else hd s # replace_str old new (tl s))"
  by pat_completeness auto
termination
  by (relation "measure (\<lambda>(old, new, s). length s)") auto

declare replace_str.simps [simp del]

text \<open>\<open>s.find(c)\<close> and \<open>s.rfind(c)\<close> for a single character: the index, or \<open>-1\<close>.\<close>

fun find_char :: "char \<Rightarrow> string \<Rightarrow> int" where
  "find_char c [] = - 1"
| "find_char c (x # xs) =
     (if x = c then 0 else (let r = find_char c xs in if r = - 1 then - 1 else r + 1))"

definition rfind_char :: "char \<Rightarrow> string \<Rightarrow> int" where
  "rfind_char c s =
     (let r = find_char c (rev s) in if r = - 1 then - 1 else int (length s) - 1 - r)"

text \<open>The slice \<open>s[a:b]\<close> for indices that are not negative.\<close>

definition slice :: "string \<Rightarrow> int \<Rightarrow> int \<Rightarrow> string" where
  "slice s a b = take (nat (b - a)) (drop (nat a) s)"

text \<open>The Markdown code fence, three backquotes.\<close>

definition fence :: string where
  "fence = replicate 3 (CHR 0x60)"

section \<open>The services outside the program\<close>

text \<open>
  The vector index, the chat model and the functions of the Python library whose results
  the program only passes on are parameters: the similarity search (an exception, or the
  hits with their scores, best first), the chat model (prompt to answer text),
  \<open>json.loads\<close>, \<open>str\<close> as the f-strings apply it, \<open>round(score, 4)\<close>, the prompt
  template \<open>prompts/rerank_prompt.txt\<close> filled with the intent and the jobs, and the
  outcome of reading the template \<open>prompts/new_rerank_prompt.txt\<close> of the combined
  retriever: an exception, or the template as the function that fills it with the
  \<open>json.dumps\<close> of the intent and of the jobs.
\<close>

record document =
  metadata :: pydict
  page_content :: string

record services =
  similarity_search_with_score :: "string \<Rightarrow> int \<Rightarrow> exn + (document \<times> rat) list"
  invoke :: "string \<Rightarrow> exn + string"
  json_loads :: "string \<Rightarrow> exn + pyval"
  str_of :: "pyval \<Rightarrow> string"
  round4 :: "rat \<Rightarrow> rat"
  rerank_template :: "string \<Rightarrow> string \<Rightarrow> string"
  new_rerank_template :: "exn + (pydict \<Rightarrow> pydict list \<Rightarrow> string)"

text \<open>\<open>d[k]\<close> on a dict raises \<open>KeyError\<close> when the key is missing.\<close>

definition dict_index :: "pydict \<Rightarrow> string \<Rightarrow> exn + pyval" where
  "dict_index d k = (case map_of d k of None \<Rightarrow> Inl KeyError | Some v \<Rightarrow> Inr v)"

text \<open>\<open>v.lower()\<close> and \<open>v.strip()\<close> exist on strings only.\<close>

fun lower_of :: "pyval \<Rightarrow> exn + string" where
  "lower_of (PStr s) = Inr (lower s)"
| "lower_of _ = Inl AttributeError"

fun strip_of :: "pyval \<Rightarrow> exn + string" where
  "strip_of (PStr s) = Inr (strip s)"
| "strip_of _ = Inl AttributeError"

section \<open>Job retriever (app/job\_retriever.py)\<close>

definition create_search_query :: "services \<Rightarrow> pydict \<Rightarrow> string" where
  "create_search_query sv it =
     join '' ''
       ((if truthy (dict_get it ''role'') then [''Role: '' @ str_of sv (dict_get it ''role'')] else []) @
        (if truthy (dict_get it ''domain'') then [''Domain: '' @ str_of sv (dict_get it ''domain'')] else []) @
        (if truthy (dict_get it ''location'')
           then [''Location: '' @ str_of sv (dict_get it ''location'')] else []) @
        (if dict_get it ''remote'' = PStr ''yes'' then [''Remote friendly''] else []) @
        (if truthy (dict_get it ''salary'') then [''Salary: '' @ str_of sv (dict_get it ''salary'')] else []))"

definition format_hit :: "services \<Rightarrow> nat \<times> document \<times> rat \<Rightarrow> pydict" where
  "format_hit sv = (\<lambda>(i, doc, score).
     [(''rank'', PInt (int i + 1)),
      (''job_id'', dict_get (metadata doc) ''id''),
      (''title'', dict_get (metadata doc) ''title''),
      (''company'', dict_get (metadata doc) ''company''),
      (''location'', dict_get (metadata doc) ''location''),
      (''description'', PStr (page_content doc)),
      (''similarity_score'', PFloat (round4 sv score)),
      (''metadata'', PDict (metadata doc))])"

definition retrieve_jobs :: "services \<Rightarrow> pydict \<Rightarrow> int \<Rightarrow> exn + pydict list" where
  "retrieve_jobs sv it top_k =
     (case similarity_search_with_score sv (create_search_query sv it) top_k of
        Inl e \<Rightarrow> Inl e
      | Inr results \<Rightarrow> Inr (map (format_hit sv) (List.enumerate 0 results)))"

text \<open>
  The list comprehension of \<open>filter_by_location\<close>; \<open>job.get("location", "").lower()\<close>
  raises when the location is not a string.
\<close>

fun filter_jobs :: "string \<Rightarrow> pydict list \<Rightarrow> exn + pydict list" where
  "filter_jobs target [] = Inr []"
| "filter_jobs target (job # jobs) =
     (case lower_of (dict_get_default job ''location'' (PStr [])) of
        Inl e \<Rightarrow> Inl e
      | Inr loc \<Rightarrow>
          (case filter_jobs target jobs of
             Inl e \<Rightarrow> Inl e
           | Inr rest \<Rightarrow>
               Inr (if py_in target loc \<or> py_in ''remote'' loc then job # rest else rest)))"

definition filter_by_location :: "pydict list \<Rightarrow> pyval \<Rightarrow> exn + pydict list" where
  "filter_by_location jobs target_location =
     (if \<not> truthy target_location then Inr jobs
      else (case lower_of target_location of
              Inl e \<Rightarrow> Inl e
            | Inr target \<Rightarrow> filter_jobs target jobs))"

section \<open>Combined retriever (app/job\_response\_final.py)\<close>

definition create_search_query_final :: "services \<Rightarrow> pydict \<Rightarrow> string" where
  "create_search_query_final sv it =
     strip (str_of sv (dict_get_default it ''role'' (PStr [])) @ '' - '' @
            str_of sv (dict_get_default it ''raw_query'' (PStr [])))"

text \<open>The identity key of a hit and the candidate built from it.\<close>

definition hit_key :: "document \<times> rat \<Rightarrow> pyval \<times> pyval \<times> pyval" where
  "hit_key = (\<lambda>(doc, score).
     (dict_get (metadata doc) ''title'', dict_get (metadata doc) ''company'',
      dict_get (metadata doc) ''location''))"

definition candidate :: "services \<Rightarrow> document \<times> rat \<Rightarrow> pydict" where
  "candidate sv = (\<lambda>(doc, score).
     [(''title'', dict_get (metadata doc) ''title''),
      (''company'', dict_get (metadata doc) ''company''),
      (''location'', dict_get (metadata doc) ''location''),
      (''short_description'', PStr (take 500 (page_content doc))),
      (''similarity_score'', PFloat (round4 sv score))])"

text \<open>
  The loop of \<open>retrieve_jobs\<close> over the hits: a hit whose key was seen is skipped, any
  other is recorded and appended, and the loop stops once \<open>top_k\<close> candidates are
  collected.
\<close>

fun dedupe_loop ::
    "services \<Rightarrow> int \<Rightarrow> (pyval \<times> pyval \<times> pyval) set \<Rightarrow> pydict list \<Rightarrow>
     (document \<times> rat) list \<Rightarrow> pydict list" where
  "dedupe_loop sv top_k seen deduped [] = deduped"
| "dedupe_loop sv top_k seen deduped (hit # results) =
     (if hit_key hit \<in> seen then dedupe_loop sv top_k seen deduped results
      else (let deduped' = deduped @ [candidate sv hit]
            in if int (length deduped') \<ge> top_k then deduped'
               else dedupe_loop sv top_k (insert (hit_key hit) seen) deduped' results))"

fun those_exn :: "(exn + 'a) list \<Rightarrow> exn + 'a list" where
  "those_exn [] = Inr []"
| "those_exn (x # xs) =
     (case x of
        Inl e \<Rightarrow> Inl e
      | Inr y \<Rightarrow> (case those_exn xs of Inl e \<Rightarrow> Inl e | Inr ys \<Rightarrow> Inr (y # ys)))"

definition compact_job :: "pydict \<Rightarrow> exn + pydict" where
  "compact_job job =
     (case dict_index job ''title'' of Inl e \<Rightarrow> Inl e | Inr title \<Rightarrow>
     (case dict_index job ''company'' of Inl e \<Rightarrow> Inl e | Inr company \<Rightarrow>
     (case dict_index job ''location'' of Inl e \<Rightarrow> Inl e | Inr location \<Rightarrow>
     (case dict_index job ''short_description'' of Inl e \<Rightarrow> Inl e | Inr description \<Rightarrow>
     (case dict_index job ''similarity_score'' of Inl e \<Rightarrow> Inl e | Inr score \<Rightarrow>
        Inr [(''title'', title), (''company'', company), (''location'', location),
             (''description'', description), (''score'', score)])))))"

text \<open>The removal of the code fence around the answer.\<close>

definition strip_fences :: "string \<Rightarrow> string" where
  "strip_fences raw_output =
     (let raw1 = (if startswith raw_output (fence @ ''json'')
                    then strip (drop (length (fence @ ''json'')) raw_output)
                  else if startswith raw_output fence
                    then strip (drop (length fence) raw_output)
                  else raw_output)
      in if endswith raw1 fence then strip (take (length raw1 - 3) raw1) else raw1)"

text \<open>
  \<open>rerank_with_llm\<close>: reading the template, building the prompt and calling the model
  are outside any \<open>try\<close>; only \<open>json.loads\<close> is guarded, and its failure gives \<open>[]\<close>.
  What is returned is the parsed answer of the model, whatever it is.
\<close>

definition rerank_with_llm :: "services \<Rightarrow> pydict list \<Rightarrow> pydict \<Rightarrow> exn + pyval" where
  "rerank_with_llm sv jobs it =
     (case new_rerank_template sv of Inl e \<Rightarrow> Inl e | Inr template \<Rightarrow>
     (case those_exn (map compact_job jobs) of Inl e \<Rightarrow> Inl e | Inr compact_jobs \<Rightarrow>
     (case invoke sv (template it compact_jobs) of Inl e \<Rightarrow> Inl e | Inr content \<Rightarrow>
        (case json_loads sv (strip_fences (strip content)) of
           Inr parsed \<Rightarrow> Inr parsed
         | Inl e \<Rightarrow> Inr (PList [])))))"

definition retrieve_jobs_final :: "services \<Rightarrow> pydict \<Rightarrow> int \<Rightarrow> exn + pyval" where
  "retrieve_jobs_final sv it top_k =
     (case similarity_search_with_score sv (create_search_query_final sv it) (top_k * 2) of
        Inl e \<Rightarrow> Inl e
      | Inr results \<Rightarrow> rerank_with_llm sv (dedupe_loop sv top_k {} [] results) it)"

section \<open>First re-ranker (app/job\_ranker.py)\<close>

text \<open>The fixed text of the prompt, around the intent and the list of jobs.\<close>

definition ranker_prompt_head :: string where
  "ranker_prompt_head =
     ''You are a job matching expert. Given the user'' @ [CHR 0x27] @ ''s preferences: ''"

definition ranker_prompt_mid :: string where
  "ranker_prompt_mid =
     [CHR 0x0A] @ [CHR 0x0A] @ ''Here are 30 job candidates:'' @ [CHR 0x0A]"

definition ranker_prompt_tail :: string where
  "ranker_prompt_tail =
     [CHR 0x0A] @ [CHR 0x0A] @ ''Select the TOP 10 jobs that best match the user'' @
     [CHR 0x27] @
     ''s requirements. Consider role fit, location match, company quality, and overall alignment.'' @
     [CHR 0x0A] @ [CHR 0x0A] @ ''Return ONLY a JSON array with this format:'' @ [CHR 0x0A] @
     ''['' @ [CHR 0x0A] @ ''  {'' @ [CHR 0x0A] @ ''    '' @ [CHR 0x22] @ ''rank'' @
     [CHR 0x22] @ '': 1,'' @ [CHR 0x0A] @ ''    '' @ [CHR 0x22] @ ''job_number'' @ [CHR 0x22] @
     '': 5,'' @ [CHR 0x0A] @ ''    '' @ [CHR 0x22] @ ''reason'' @ [CHR 0x22] @ '': '' @
     [CHR 0x22] @ ''Perfect role match and location fit'' @ [CHR 0x22] @ [CHR 0x0A] @
     ''  },'' @ [CHR 0x0A] @ ''  {'' @ [CHR 0x0A] @ ''    '' @ [CHR 0x22] @ ''rank'' @
     [CHR 0x22] @ '': 2, '' @ [CHR 0x0A] @ ''    '' @ [CHR 0x22] @ ''job_number'' @
     [CHR 0x22] @ '': 12,'' @ [CHR 0x0A] @ ''    '' @ [CHR 0x22] @ ''reason'' @ [CHR 0x22] @
     '': '' @ [CHR 0x22] @ ''Strong company with relevant experience'' @ [CHR 0x22] @
     [CHR 0x0A] @ ''  }'' @ [CHR 0x0A] @ '']'' @ [CHR 0x0A] @ [CHR 0x0A] @
     ''Return only the JSON array, no other text.''"

text \<open>
  The values a rank entry is read with: \<open>v[k]\<close> for a string key, \<open>v - 1\<close>, iteration
  over \<open>v\<close>, and \<open>jobs[job_idx]\<close> guarded by \<open>0 <= job_idx < len(jobs)\<close>
  (\<open>None\<close> when the guard fails).
\<close>

fun py_index :: "pyval \<Rightarrow> string \<Rightarrow> exn + pyval" where
  "py_index (PDict d) k = dict_index d k"
| "py_index _ k = Inl TypeError"

fun py_minus_one :: "pyval \<Rightarrow> exn + pyval" where
  "py_minus_one (PInt n) = Inr (PInt (n - 1))"
| "py_minus_one (PBool b) = Inr (PInt ((if b then 1 else 0) - 1))"
| "py_minus_one (PFloat r) = Inr (PFloat (r - 1))"
| "py_minus_one _ = Inl TypeError"

fun py_iter :: "pyval \<Rightarrow> exn + pyval list" where
  "py_iter (PList xs) = Inr xs"
| "py_iter (PDict d) = Inr (map (\<lambda>(k, v). PStr k) d)"
| "py_iter (PStr s) = Inr (map (\<lambda>c. PStr [c]) s)"
| "py_iter _ = Inl TypeError"

fun job_index :: "pydict list \<Rightarrow> pyval \<Rightarrow> exn + pydict option" where
  "job_index jobs (PInt i) =
     Inr (if 0 \<le> i \<and> i < int (length jobs) then Some (jobs ! nat i) else None)"
| "job_index jobs (PFloat r) =
     (if 0 \<le> r \<and> r < of_nat (length jobs) then Inl TypeError else Inr None)"
| "job_index jobs _ = Inl TypeError"

text \<open>One line of the job list of the prompt; \<open>job['title']\<close> raises on a missing key.\<close>

definition ranker_job_line :: "services \<Rightarrow> nat \<times> pydict \<Rightarrow> exn + string" where
  "ranker_job_line sv = (\<lambda>(i, job).
     (case dict_index job ''title'' of Inl e \<Rightarrow> Inl e | Inr title \<Rightarrow>
     (case dict_index job ''company'' of Inl e \<Rightarrow> Inl e | Inr company \<Rightarrow>
     (case dict_index job ''location'' of Inl e \<Rightarrow> Inl e | Inr location \<Rightarrow>
     (case dict_index job ''similarity_score'' of Inl e \<Rightarrow> Inl e | Inr score \<Rightarrow>
        Inr (str_of sv (PInt (int i)) @ ''. '' @ str_of sv title @ '' at '' @ str_of sv company @
             '' - '' @ str_of sv location @ '' (Score: '' @ str_of sv score @ '')'' @
             [CHR 0x0A]))))))"

text \<open>The loop over the rankings inside the \<open>try\<close> block.\<close>

fun ranker_loop :: "pydict list \<Rightarrow> pyval list \<Rightarrow> pydict list \<Rightarrow> exn + pydict list" where
  "ranker_loop jobs [] final_jobs = Inr final_jobs"
| "ranker_loop jobs (rank_info # rest) final_jobs =
     (case py_index rank_info ''job_number'' of Inl e \<Rightarrow> Inl e | Inr n \<Rightarrow>
     (case py_minus_one n of Inl e \<Rightarrow> Inl e | Inr job_idx \<Rightarrow>
     (case job_index jobs job_idx of
        Inl e \<Rightarrow> Inl e
      | Inr None \<Rightarrow> ranker_loop jobs rest final_jobs
      | Inr (Some job) \<Rightarrow>
          (case py_index rank_info ''rank'' of Inl e \<Rightarrow> Inl e | Inr rank \<Rightarrow>
          (case py_index rank_info ''reason'' of Inl e \<Rightarrow> Inl e | Inr reason \<Rightarrow>
             ranker_loop jobs rest
               (final_jobs @
                  [AList.update ''selection_reason'' reason
                     (AList.update ''final_rank'' rank job)]))))))"

definition ranker_try :: "services \<Rightarrow> pydict list \<Rightarrow> string \<Rightarrow> exn + pydict list" where
  "ranker_try sv jobs prompt =
     (case invoke sv prompt of Inl e \<Rightarrow> Inl e | Inr content \<Rightarrow>
     (case json_loads sv content of Inl e \<Rightarrow> Inl e | Inr rankings \<Rightarrow>
     (case py_iter rankings of Inl e \<Rightarrow> Inl e | Inr items \<Rightarrow>
     (case ranker_loop jobs items [] of Inl e \<Rightarrow> Inl e | Inr final_jobs \<Rightarrow>
        Inr (take 10 final_jobs)))))"

definition rerank_jobs_ranker :: "services \<Rightarrow> pydict list \<Rightarrow> pydict \<Rightarrow> exn + pydict list" where
  "rerank_jobs_ranker sv jobs0 it =
     (let jobs = (if length jobs0 > 30 then take 30 jobs0 else jobs0);
          intent_str =
            ''Role: '' @ str_of sv (dict_get_default it ''role'' (PStr ''N/A'')) @
            '', Location: '' @ str_of sv (dict_get_default it ''location'' (PStr ''N/A'')) @
            '', Salary: '' @ str_of sv (dict_get_default it ''salary'' (PStr ''N/A''))
      in case those_exn (map (ranker_job_line sv) (List.enumerate 1 jobs)) of
           Inl e \<Rightarrow> Inl e
         | Inr job_lines \<Rightarrow>
             (let prompt = ranker_prompt_head @ intent_str @ ranker_prompt_mid @
                           concat job_lines @ ranker_prompt_tail
              in case ranker_try sv jobs prompt of
                   Inr final_jobs \<Rightarrow> Inr final_jobs
                 | Inl e \<Rightarrow> Inr (take 10 jobs)))"

section \<open>Second re-ranker (app/response\_chain.py)\<close>

definition create_fallback_ranking :: "services \<Rightarrow> pydict list \<Rightarrow> pydict list" where
  "create_fallback_ranking sv jobs =
     map (\<lambda>(i, job).
            AList.update ''selection_reason''
              (PStr (''High similarity match (score: '' @
                     str_of sv (dict_get_default job ''similarity_score'' (PStr ''N/A'')) @ '')''))
              (AList.update ''final_rank'' (PInt (int i)) job))
         (List.enumerate 1 (take 10 jobs))"

text \<open>
  The inner loop that looks for the original job of a ranked entry: the first job whose
  title and company each contain, or are contained in, the ranked ones, ignoring case.
\<close>

fun find_match :: "string \<Rightarrow> string \<Rightarrow> pydict list \<Rightarrow> exn + pydict option" where
  "find_match ranked_title ranked_company [] = Inr None"
| "find_match ranked_title ranked_company (original_job # jobs) =
     (case strip_of (dict_get_default original_job ''title'' (PStr [])) of
        Inl e \<Rightarrow> Inl e
      | Inr orig_title \<Rightarrow>
     (case strip_of (dict_get_default original_job ''company'' (PStr [])) of
        Inl e \<Rightarrow> Inl e
      | Inr orig_company \<Rightarrow>
          if (py_in (lower ranked_title) (lower orig_title) \<or>
              py_in (lower orig_title) (lower ranked_title)) \<and>
             (py_in (lower ranked_company) (lower orig_company) \<or>
              py_in (lower orig_company) (lower ranked_company))
          then Inr (Some original_job)
          else find_match ranked_title ranked_company jobs))"

text \<open>
  The loop over the first ten rankings, numbered from 1. An entry that is not a dict is
  skipped; a matched job (a copy that is not empty) gets the rank and the reason, and
  otherwise a placeholder is appended.
\<close>

fun rank_loop ::
    "services \<Rightarrow> pydict list \<Rightarrow> (nat \<times> pyval) list \<Rightarrow> pydict list \<Rightarrow> exn + pydict list" where
  "rank_loop sv jobs [] final_jobs = Inr final_jobs"
| "rank_loop sv jobs ((i, PDict ranked_job) # rest) final_jobs =
     (case strip_of (dict_get_default ranked_job ''title'' (PStr [])) of
        Inl e \<Rightarrow> Inl e
      | Inr ranked_title \<Rightarrow>
     (case strip_of (dict_get_default ranked_job ''company'' (PStr [])) of
        Inl e \<Rightarrow> Inl e
      | Inr ranked_company \<Rightarrow>
     (let reason = dict_get_default ranked_job ''reason''
                     (PStr ''Good match for your requirements'')
      in case find_match ranked_title ranked_company jobs of
           Inl e \<Rightarrow> Inl e
         | Inr matched_job \<Rightarrow>
             (if (case matched_job of None \<Rightarrow> False | Some m \<Rightarrow> m \<noteq> []) then
                rank_loop sv jobs rest
                  (final_jobs @
                     [AList.update ''selection_reason'' reason
                        (AList.update ''final_rank'' (PInt (int i))
                           (case matched_job of None \<Rightarrow> [] | Some m \<Rightarrow> m))])
              else
                rank_loop sv jobs rest
                  (final_jobs @
                     [[(''final_rank'', PInt (int i)),
                       (''job_id'', PStr (''ranked_'' @ str_of sv (PInt (int i)))),
                       (''title'', PStr ranked_title),
                       (''company'', PStr ranked_company),
                       (''location'', dict_get_default ranked_job ''location'' (PStr ''Unknown'')),
                       (''similarity_score'', PFloat 0),
                       (''selection_reason'', reason)]])))))"
| "rank_loop sv jobs ((i, _) # rest) final_jobs = rank_loop sv jobs rest final_jobs"

text \<open>\<open>len(rankings)\<close>, printed right after the parse, raises on a value without length.\<close>

fun py_len :: "pyval \<Rightarrow> exn + nat" where
  "py_len (PList xs) = Inr (length xs)"
| "py_len (PDict d) = Inr (length d)"
| "py_len (PStr s) = Inr (length s)"
| "py_len _ = Inl TypeError"

text \<open>From the parsed rankings to the result: the part of the \<open>try\<close> block after the parse.\<close>

definition rank_parsed :: "services \<Rightarrow> pydict list \<Rightarrow> pyval \<Rightarrow> exn + pydict list" where
  "rank_parsed sv jobs rankings =
     (case py_len rankings of
        Inl e \<Rightarrow> Inl e
      | Inr n \<Rightarrow>
          (case rankings of
             PList rs \<Rightarrow>
               (case rank_loop sv jobs (List.enumerate 1 (take 10 rs)) [] of
                  Inl e \<Rightarrow> Inl e
                | Inr final_jobs \<Rightarrow> Inr (take 10 final_jobs))
           | _ \<Rightarrow> Inr (create_fallback_ranking sv jobs)))"

text \<open>
  From the answer of the model to the result: the \<open>try\<close> block after the call. A
  \<open>JSONDecodeError\<close> of \<open>json.loads\<close> is caught at once; any other exception leaves the
  block.
\<close>

definition rank_content :: "services \<Rightarrow> pydict list \<Rightarrow> string \<Rightarrow> exn + pydict list" where
  "rank_content sv jobs response =
     (let content = strip response
      in if content = [] then Inr (create_fallback_ranking sv jobs)
         else
           (let content1 = replace_str fence [] (replace_str (fence @ ''json'') [] content);
                start_idx = find_char (CHR ''['') content1;
                end_idx = rfind_char (CHR '']'') content1 + 1
            in if start_idx = - 1 \<or> end_idx = 0 then Inr (create_fallback_ranking sv jobs)
               else
                 (let json_str = replace_str [CHR 0x09] '' ''
                                   (replace_str [CHR 0x0A] '' '' (slice content1 start_idx end_idx))
                  in case json_loads sv json_str of
                       Inl e \<Rightarrow>
                         (if e = JSONDecodeError then Inr (create_fallback_ranking sv jobs)
                          else Inl e)
                     | Inr rankings \<Rightarrow> rank_parsed sv jobs rankings)))"

definition intent_lines :: "services \<Rightarrow> pydict \<Rightarrow> string" where
  "intent_lines sv it =
     concat (map (\<lambda>(key, val).
                    if truthy val then ''- '' @ key @ '': '' @ str_of sv val @ [CHR 0x0A] else [])
                 it)"

definition job_lines :: "services \<Rightarrow> pydict list \<Rightarrow> string" where
  "job_lines sv jobs =
     concat (map (\<lambda>(i, job).
                    str_of sv (PInt (int i)) @ ''. '' @
                    str_of sv (dict_get_default job ''title'' (PStr ''Unknown'')) @ '' at '' @
                    str_of sv (dict_get_default job ''company'' (PStr ''Unknown'')) @ '' ('' @
                    str_of sv (dict_get_default job ''location'' (PStr ''Unknown'')) @
                    '') - Similarity: '' @
                    str_of sv (dict_get_default job ''similarity_score'' (PInt 0)) @ [CHR 0x0A])
                 (List.enumerate 1 jobs))"

text \<open>
  \<open>rerank_jobs\<close>. The \<open>try\<close> block has two handlers. The handler of
  \<open>json.JSONDecodeError\<close> prints \<open>content[:200]\<close> before it returns the fallback, and
  \<open>content\<close> is bound only after \<open>self.model.invoke\<close> has returned: when the call
  itself raises \<open>JSONDecodeError\<close>, the handler raises \<open>UnboundLocalError\<close>, which
  leaves the function. After the call, \<open>content\<close> is bound and both handlers return the
  fallback.
\<close>

definition rerank_jobs :: "services \<Rightarrow> pydict list \<Rightarrow> pydict \<Rightarrow> exn + pydict list" where
  "rerank_jobs sv jobs0 it =
     (let jobs = (if length jobs0 > 30 then take 30 jobs0 else jobs0);
          prompt = rerank_template sv (strip (intent_lines sv it)) (strip (job_lines sv jobs))
      in case invoke sv prompt of
           Inl e \<Rightarrow>
             (if e = JSONDecodeError then Inl UnboundLocalError
              else Inr (create_fallback_ranking sv jobs))
         | Inr response \<Rightarrow>
             (case rank_content sv jobs response of
                Inr ranked \<Rightarrow> Inr ranked
              | Inl e \<Rightarrow> Inr (create_fallback_ranking sv jobs)))"

section \<open>Predicates of the statements and sample conversations\<close>

text \<open>The invariant of a session intent: exactly the five keys, in the order of creation.\<close>

definition intent_keys_ok :: "pydict \<Rightarrow> bool" where
  "intent_keys_ok it = (map fst it = [''role'', ''location'', ''salary'', ''domain'', ''remote''])"

definition store_ok :: "user_sessions \<Rightarrow> bool" where
  "store_ok store = (\<forall>u s. store u = Some s \<longrightarrow> intent_keys_ok (intent s))"

text \<open>A field is known when it is bound to a value other than \<open>None\<close>.\<close>

definition known :: "pydict \<Rightarrow> string \<Rightarrow> bool" where
  "known it f = (\<exists>v. map_of it f = Some v \<and> v \<noteq> PNone)"

definition none_intent :: pydict where
  "none_intent = [(''role'', PNone), (''location'', PNone), (''salary'', PNone),
                  (''domain'', PNone), (''remote'', PNone)]"



definition full_chains :: chains where
  "full_chains =
     \<lparr> intent_chain = (\<lambda>_. Inr (PDict [(''role'', PStr ''data analyst''),
                                       (''location'', PStr ''New York''),
                                       (''salary'', PStr ''100k'')])),
       followup_chain = (\<lambda>_ _. Inr ''Any preferred domain?'') \<rparr>"

text \<open>
  The location of a candidate as a string (empty when the key is absent), and containment
  of a string in another as a substring, ignoring the case of letters.
\<close>

definition location_of :: "pydict \<Rightarrow> string" where
  "location_of job = (case dict_get_default job ''location'' (PStr []) of PStr s \<Rightarrow> s | _ \<Rightarrow> [])"

definition contains_ci :: "string \<Rightarrow> string \<Rightarrow> bool" where
  "contains_ci hay needle = (\<exists>pre suf. lower hay = pre @ lower needle @ suf)"

definition location_is_string :: "pydict \<Rightarrow> bool" where
  "location_is_string job = (\<exists>s. dict_get_default job ''location'' (PStr []) = PStr s)"

definition sample_jobs :: "pydict list" where
  "sample_jobs =
     [[(''title'', PStr ''Senior Data Scientist''), (''company'', PStr ''Google''),
       (''location'', PStr ''New York, NY''), (''similarity_score'', PFloat (19 / 20))],
      [(''title'', PStr ''Data Analyst''), (''company'', PStr ''Meta''),
       (''location'', PStr ''REMOTE''), (''similarity_score'', PFloat (23 / 25))],
      [(''title'', PStr ''Research Scientist''), (''company'', PStr ''OpenAI''),
       (''location'', PStr ''San Francisco, CA''), (''similarity_score'', PFloat (22 / 25))]]"

text \<open>
  The identity key of a candidate, and the hits that are the first with their key, in
  the order of the hits.
\<close>

definition job_key :: "pydict \<Rightarrow> pyval \<times> pyval \<times> pyval" where
  "job_key job = (dict_get job ''title'', dict_get job ''company'', dict_get job ''location'')"

fun first_seen ::
    "(pyval \<times> pyval \<times> pyval) set \<Rightarrow> (document \<times> rat) list \<Rightarrow> (document \<times> rat) list" where
  "first_seen seen [] = []"
| "first_seen seen (hit # hits) =
     (if hit_key hit \<in> seen then first_seen seen hits
      else hit # first_seen (insert (hit_key hit) seen) hits)"

text \<open>
  Sample services: an index that answers every query with the same posting twice, and a
  model that answers every prompt with a JSON array of two numbers.
\<close>

definition sample_doc :: document where
  "sample_doc =
     \<lparr> metadata = [(''job_id'', PInt 7), (''title'', PStr ''Data Analyst''),
                    (''company'', PStr ''Meta''), (''location'', PStr ''Remote'')],
       page_content = ''Data Analyst. Data analysis and visualization'' \<rparr>"

definition sample_services :: services where
  "sample_services =
     \<lparr> similarity_search_with_score = (\<lambda>query k. Inr [(sample_doc, 1 / 10), (sample_doc, 1 / 5)]),
       invoke = (\<lambda>prompt. Inr ''[1, 2]''),
       json_loads = (\<lambda>s. if s = ''[1, 2]'' then Inr (PList [PInt 1, PInt 2]) else Inl JSONDecodeError),
       str_of = (\<lambda>v. case v of PStr s \<Rightarrow> s | _ \<Rightarrow> ''?''),
       round4 = (\<lambda>r. r),
       rerank_template = (\<lambda>intent_str jobs_str. intent_str @ jobs_str),
       new_rerank_template = Inr (\<lambda>it jobs. ''prompt'') \<rparr>"

definition sample_intent :: pydict where
  "sample_intent =
     [(''role'', PStr ''Data Analyst''), (''location'', PStr ''New York''),
      (''salary'', PStr ''120000''), (''domain'', PNone), (''remote'', PStr ''no'')]"

text \<open>
  A candidate with the four keys the prompt of the first re-ranker reads; services whose
  model answers the empty string, which \<open>json.loads\<close> rejects; and services whose
  model call raises \<open>json.JSONDecodeError\<close> (the client could not decode the reply of
  the completion service).
\<close>

definition has_prompt_keys :: "pydict \<Rightarrow> bool" where
  "has_prompt_keys job =
     (map_of job ''title'' \<noteq> None \<and> map_of job ''company'' \<noteq> None \<and>
      map_of job ''location'' \<noteq> None \<and> map_of job ''similarity_score'' \<noteq> None)"

definition silent_services :: services where
  "silent_services = sample_services\<lparr> invoke := (\<lambda>prompt. Inr []) \<rparr>"

definition decode_error_services :: services where
  "decode_error_services = sample_services\<lparr> invoke := (\<lambda>prompt. Inl JSONDecodeError) \<rparr>"

text \<open>The annotation the fallback of the second re-ranker gives the candidate at position \<open>i\<close>.\<close>

definition fallback_entry :: "services \<Rightarrow> nat \<Rightarrow> pydict \<Rightarrow> pydict" where
  "fallback_entry sv i job =
     AList.update ''selection_reason''
       (PStr (''High similarity match (score: '' @
              str_of sv (dict_get_default job ''similarity_score'' (PStr ''N/A'')) @ '')''))
       (AList.update ''final_rank'' (PInt (int i + 1)) job)"

section \<open>Properties of the merge and of one orchestrator call\<close>

lemma truthy_not_None: "truthy v \<Longrightarrow> v \<noteq> PNone"
  by (cases v) auto

lemma map_of_merge_intent:
  "distinct (map fst new) \<Longrightarrow>
   map_of (merge_intent it new) f =
     (case map_of new f of
        None \<Rightarrow> map_of it f
      | Some v \<Rightarrow> if truthy v then Some v else map_of it f)"
proof (induction new arbitrary: it)
  case Nil
  then show ?case by simp
next
  case (Cons p new)
  obtain k v where p: "p = (k, v)" by (cases p)
  from Cons.prems p have k: "map_of new k = None" and d: "distinct (map fst new)"
    by (auto simp: map_of_eq_None_iff)
  show ?case
    using Cons.IH [OF d] k
    by (auto simp: p AList.update_conv' split: option.splits)
qed

lemma keys_merge_intent:
  "fst ` set new \<subseteq> fst ` set it \<Longrightarrow> map fst (merge_intent it new) = map fst it"
proof (induction new arbitrary: it)
  case Nil
  then show ?case by simp
next
  case (Cons p new)
  obtain k v where p: "p = (k, v)" by (cases p)
  from Cons.prems p have kin: "k \<in> fst ` set it" and sub: "fst ` set new \<subseteq> fst ` set it"
    by auto
  have keep: "map fst (AList.update k v it) = map fst it"
    using kin by (simp add: AList.update_keys)
  then have sub': "fst ` set new \<subseteq> fst ` set (AList.update k v it)"
    using sub by (metis list.set_map)
  show ?case
    using Cons.IH [OF sub] Cons.IH [OF sub'] keep by (simp add: p)
qed





lemma parse_intent_cases:
  "parse_intent chain inp =
     Inr (case chain inp of
            Inr (PDict d) \<Rightarrow>
              [(''role'', dict_get d ''role''), (''location'', dict_get d ''location''),
               (''salary'', dict_get d ''salary''), (''domain'', dict_get d ''domain''),
               (''remote'', dict_get d ''remote'')]
          | _ \<Rightarrow> [(''role'', PNone), (''location'', PNone), (''salary'', PNone),
                  (''domain'', PNone), (''remote'', PNone)])"
  by (simp add: parse_intent_def parse_intent_try_def split: sum.splits pyval.splits)

lemma parse_intent_keys:
  "parse_intent chain inp = Inr new \<Longrightarrow>
   map fst new = [''role'', ''location'', ''salary'', ''domain'', ''remote'']"
  by (auto simp: parse_intent_cases split: sum.splits pyval.splits)

lemma session_of_fresh: "store u = None \<Longrightarrow> session_of u store = new_session"
  by (simp add: session_of_def get_session_def)

lemma session_of_stored: "store u = Some s \<Longrightarrow> session_of u store = s"
  by (simp add: session_of_def get_session_def)

lemma handle_user_query_step:
  assumes p: "parse_intent (intent_chain env) inp = Inr new"
      and h: "handle_user_query env inp u store = (r, store')"
  defines "pre \<equiv> session_of u store"
  defines "merged \<equiv> merge_intent (intent pre) new"
  shows "intent (session_of u store') = merged"
    and "attempts (session_of u store') =
           attempts pre + (if is_critical_missing merged then 1 else 0)"
    and "result_type r =
           (if \<not> is_critical_missing merged then PStr ''intent_complete''
            else if 3 \<le> attempts pre + 1 then PStr ''error''
            else PStr ''followup_required'')"
    and "result_type r = PStr ''error'' \<Longrightarrow> result_message r = PStr error_message"
    and "\<exists>d. r = Inr d"
    and "v \<noteq> u \<Longrightarrow> store' v = store v"
  using h
  unfolding pre_def merged_def
  by (auto simp: handle_user_query_def p session_of_def get_session_def append_chat_history_def
        Let_def result_type_def result_message_def dict_get_def dict_get_default_def MAX_ATTEMPTS_def
      split: option.splits if_splits)

lemma parse_intent_total: "\<exists>new. parse_intent chain inp = Inr new"
  by (simp add: parse_intent_cases)





lemma handle_keys:
  assumes "handle_user_query env inp u store = (r, store')"
      and "intent_keys_ok (intent (session_of u store))"
  shows "intent_keys_ok (intent (session_of u store'))"
proof -
  obtain new where p: "parse_intent (intent_chain env) inp = Inr new"
    using parse_intent_total by blast
  have "fst ` set new \<subseteq> fst ` set (intent (session_of u store))"
    using parse_intent_keys [OF p] assms(2)
    by (metis intent_keys_ok_def list.set_map subset_refl)
  then show ?thesis
    using handle_user_query_step(1) [OF p assms(1)] assms(2)
    by (simp add: intent_keys_ok_def keys_merge_intent)
qed



lemma new_session_keys: "intent_keys_ok (intent new_session)"
  by (simp add: new_session_def intent_keys_ok_def)

lemma known_merge_intent: "known it f \<Longrightarrow> known (merge_intent it new) f"
proof (induction new arbitrary: it)
  case Nil
  then show ?case by simp
next
  case (Cons p new)
  obtain k v where p: "p = (k, v)" by (cases p)
  have "known (if truthy v then AList.update k v it else it) f"
    using Cons.prems by (auto simp: known_def AList.update_conv' dest: truthy_not_None)
  then show ?case using Cons.IH by (simp add: p)
qed






lemma store_ok_get_session: "store_ok store \<Longrightarrow> store_ok (snd (get_session u store))"
  by (auto simp: store_ok_def get_session_def new_session_keys split: option.splits)

lemma store_ok_append: "store_ok store \<Longrightarrow> store_ok (append_chat_history u role msg store)"
  by (auto simp: store_ok_def append_chat_history_def get_session_def new_session_def
        intent_keys_ok_def split: option.splits)

lemma store_ok_reset: "store_ok store \<Longrightarrow> store_ok (reset_session u store)"
  by (auto simp: store_ok_def reset_session_def)

lemma store_ok_session_of: "store_ok store \<Longrightarrow> intent_keys_ok (intent (session_of u store))"
  by (cases "store u") (auto simp: store_ok_def session_of_fresh session_of_stored new_session_keys)

lemma store_ok_handle:
  assumes ok: "store_ok store"
  shows "store_ok (snd (handle_user_query env inp u store))"
proof -
  obtain r store' where h: "handle_user_query env inp u store = (r, store')"
    by (cases "handle_user_query env inp u store")
  obtain new where p: "parse_intent (intent_chain env) inp = Inr new"
    using parse_intent_total by blast
  have keys: "intent_keys_ok (intent (session_of u store'))"
    using h store_ok_session_of [OF ok] by (rule handle_keys)
  have "intent_keys_ok (intent s)" if "store' v = Some s" for v s
  proof (cases "v = u")
    case True
    with that have "session_of u store' = s" by (simp add: session_of_stored)
    with keys show ?thesis by simp
  next
    case False
    then have "store' v = store v" using handle_user_query_step(6) [OF p h] by simp
    with that ok show ?thesis by (auto simp: store_ok_def)
  qed
  then show ?thesis by (simp add: h store_ok_def)
qed


section \<open>Properties of the string functions and of the location filter\<close>

lemma startswith_iff: "startswith s p \<longleftrightarrow> (\<exists>suf. s = p @ suf)"
  unfolding startswith_def
  by (metis append_eq_conv_conj append_take_drop_id)

lemma py_in_iff: "py_in needle hay \<longleftrightarrow> (\<exists>pre suf. hay = pre @ needle @ suf)"
proof (induction hay)
  case Nil
  then show ?case by auto
next
  case (Cons c cs)
  show ?case
  proof
    assume "py_in needle (c # cs)"
    then consider "startswith (c # cs) needle" | "py_in needle cs" by auto
    then show "\<exists>pre suf. c # cs = pre @ needle @ suf"
    proof cases
      case 1
      then obtain suf where "c # cs = needle @ suf" by (auto simp: startswith_iff)
      then have "c # cs = [] @ needle @ suf" by simp
      then show ?thesis by blast
    next
      case 2
      then obtain pre suf where "cs = pre @ needle @ suf" using Cons.IH by blast
      then have "c # cs = (c # pre) @ needle @ suf" by simp
      then show ?thesis by blast
    qed
  next
    assume "\<exists>pre suf. c # cs = pre @ needle @ suf"
    then obtain pre suf where e: "c # cs = pre @ needle @ suf" by blast
    show "py_in needle (c # cs)"
    proof (cases pre)
      case Nil
      with e have "startswith (c # cs) needle" by (auto simp: startswith_iff)
      then show ?thesis by simp
    next
      case (Cons a pre')
      with e have "cs = pre' @ needle @ suf" by simp
      then have "py_in needle cs" using Cons.IH by blast
      then show ?thesis by simp
    qed
  qed
qed

lemma lower_Remote: "lower ''Remote'' = ''remote''"
  by code_simp

lemma py_in_lower: "py_in (lower needle) (lower hay) \<longleftrightarrow> contains_ci hay needle"
  by (simp add: py_in_iff contains_ci_def)

lemma filter_jobs_strings:
  "\<forall>job \<in> set jobs. location_is_string job \<Longrightarrow>
   filter_jobs target jobs =
     Inr (filter (\<lambda>job. py_in target (lower (location_of job)) \<or>
                        py_in ''remote'' (lower (location_of job))) jobs)"
  by (induction jobs) (auto simp: location_is_string_def location_of_def)

lemma sample_jobs_locations: "\<forall>job \<in> set sample_jobs. location_is_string job"
  by (simp add: sample_jobs_def location_is_string_def dict_get_default_def)

section \<open>Properties of the deduplication loop\<close>

lemma dedupe_loop_take:
  "int (length deduped) < top_k \<Longrightarrow>
   dedupe_loop sv top_k seen deduped results =
     deduped @ take (nat top_k - length deduped) (map (candidate sv) (first_seen seen results))"
proof (induction results arbitrary: seen deduped)
  case Nil
  then show ?case by simp
next
  case (Cons hit results)
  show ?case
  proof (cases "hit_key hit \<in> seen")
    case True
    then show ?thesis using Cons.IH [OF Cons.prems] by simp
  next
    case False
    show ?thesis
    proof (cases "top_k \<le> int (length deduped) + 1")
      case True
      with Cons.prems have "nat top_k - length deduped = Suc 0" by linarith
      with True False show ?thesis by (simp add: Let_def)
    next
      case stop: False
      then have lt: "int (length (deduped @ [candidate sv hit])) < top_k" by simp
      from stop have "nat top_k - length deduped = Suc (nat top_k - length deduped - 1)"
        by linarith
      then have "take (nat top_k - length deduped) (candidate sv hit # xs) =
                 candidate sv hit # take (nat top_k - length deduped - 1) xs" for xs
        by (metis take_Suc_Cons)
      then show ?thesis
        using False stop Cons.IH [OF lt, of "insert (hit_key hit) seen"] by (simp add: Let_def)
    qed
  qed
qed

lemma first_seen_keys: "hit_key ` set (first_seen seen hits) = hit_key ` set hits - seen"
  by (induction hits arbitrary: seen) auto

lemma first_seen_distinct: "distinct (map hit_key (first_seen seen hits))"
proof (induction hits arbitrary: seen)
  case Nil
  then show ?case by simp
next
  case (Cons hit hits)
  have "hit_key hit \<notin> hit_key ` set (first_seen (insert (hit_key hit) seen) hits)"
    by (simp add: first_seen_keys)
  then show ?case using Cons.IH by simp
qed

lemma first_seen_first:
  "h \<in> set (first_seen seen hits) \<Longrightarrow> find (\<lambda>x. hit_key x = hit_key h) hits = Some h"
proof (induction hits arbitrary: seen)
  case Nil
  then show ?case by simp
next
  case (Cons hit hits)
  have notin: "hit_key h \<notin> seen"
    using Cons.prems first_seen_keys [of seen "hit # hits"] by blast
  show ?case
  proof (cases "hit_key hit \<in> seen")
    case True
    with Cons.prems have "h \<in> set (first_seen seen hits)" by simp
    then have "find (\<lambda>x. hit_key x = hit_key h) hits = Some h" by (rule Cons.IH)
    moreover have "hit_key hit \<noteq> hit_key h" using True notin by auto
    ultimately show ?thesis by simp
  next
    case False
    show ?thesis
    proof (cases "h = hit")
      case True
      then show ?thesis by simp
    next
      case ne: False
      with Cons.prems False have in': "h \<in> set (first_seen (insert (hit_key hit) seen) hits)"
        by simp
      then have "find (\<lambda>x. hit_key x = hit_key h) hits = Some h" by (rule Cons.IH)
      moreover have "hit_key hit \<noteq> hit_key h"
        using in' first_seen_keys [of "insert (hit_key hit) seen" hits] by blast
      ultimately show ?thesis by simp
    qed
  qed
qed

lemma job_key_candidate: "job_key (candidate sv hit) = hit_key hit"
  by (cases hit) (simp add: job_key_def candidate_def hit_key_def dict_get_def dict_get_default_def)

lemma length_first_seen: "length (first_seen {} hits) = card (hit_key ` set hits)"
proof -
  have "length (first_seen {} hits) = length (map hit_key (first_seen {} hits))" by simp
  also have "\<dots> = card (set (map hit_key (first_seen {} hits)))"
    using first_seen_distinct by (metis distinct_card)
  also have "\<dots> = card (hit_key ` set hits)"
    using first_seen_keys [of "{}" hits] by simp
  finally show ?thesis .
qed

lemma job_key_format_hit: "job_key (format_hit sv (i, hit)) = hit_key hit"
  by (cases hit) (simp add: job_key_def format_hit_def hit_key_def dict_get_def dict_get_default_def)

lemma job_keys_enumerate:
  "map job_key (map (format_hit sv) (List.enumerate n results)) = map hit_key results"
  by (induction results arbitrary: n) (simp_all add: job_key_format_hit)

section \<open>Properties of the re-rankers\<close>

lemma length_fallback: "length (create_fallback_ranking sv jobs) = min (length jobs) 10"
  by (simp add: create_fallback_ranking_def min.commute)

lemma fallback_nth:
  assumes "i < min (length jobs) 10"
  shows "create_fallback_ranking sv jobs ! i = fallback_entry sv i (jobs ! i)"
  using assms by (simp add: create_fallback_ranking_def fallback_entry_def nth_enumerate_eq add.commute)

lemma rank_parsed_bounded: "rank_parsed sv jobs rankings = Inr ranked \<Longrightarrow> length ranked \<le> 10"
  by (auto simp: rank_parsed_def length_fallback split: sum.splits pyval.splits)

lemma rank_content_bounded: "rank_content sv jobs response = Inr ranked \<Longrightarrow> length ranked \<le> 10"
  by (auto simp: rank_content_def Let_def length_fallback dest: rank_parsed_bounded
      split: sum.splits if_splits)

lemma rank_content_empty: "strip response = [] \<Longrightarrow>
   rank_content sv jobs response = Inr (create_fallback_ranking sv jobs)"
  by (simp add: rank_content_def)

lemma truncate_30: "(if length jobs > 30 then take 30 jobs else jobs) = take 30 jobs"
  by simp

lemma rerank_jobs_cases:
  "rerank_jobs sv jobs it = Inl UnboundLocalError \<and>
     invoke sv (rerank_template sv (strip (intent_lines sv it))
                  (strip (job_lines sv (take 30 jobs)))) = Inl JSONDecodeError \<or>
   rerank_jobs sv jobs it = Inr (create_fallback_ranking sv (take 30 jobs)) \<or>
   (\<exists>response ranked. rank_content sv (take 30 jobs) response = Inr ranked \<and>
                      rerank_jobs sv jobs it = Inr ranked)"
  unfolding rerank_jobs_def truncate_30 Let_def
  by (auto split: sum.splits)

lemma rerank_jobs_length:
  assumes "\<forall>prompt. invoke sv prompt \<noteq> Inl JSONDecodeError"
  shows "\<exists>ranked. rerank_jobs sv jobs it = Inr ranked \<and> length ranked \<le> 10"
  using rerank_jobs_cases [of sv jobs it] assms
  by (auto simp: length_fallback dest: rank_content_bounded)

lemma ranker_lines_ok:
  "\<forall>job \<in> set jobs. has_prompt_keys job \<Longrightarrow>
   \<exists>ls. those_exn (map (ranker_job_line sv) (List.enumerate n jobs)) = Inr ls"
proof (induction jobs arbitrary: n)
  case Nil
  then show ?case by simp
next
  case (Cons job jobs)
  then obtain ls where "those_exn (map (ranker_job_line sv) (List.enumerate (Suc n) jobs)) = Inr ls"
    by fastforce
  moreover have "\<exists>l. ranker_job_line sv (n, job) = Inr l"
    using Cons.prems by (auto simp: has_prompt_keys_def ranker_job_line_def dict_index_def)
  ultimately show ?case by auto
qed

lemma ranker_try_bounded: "ranker_try sv jobs prompt = Inr ranked \<Longrightarrow> length ranked \<le> 10"
  by (auto simp: ranker_try_def split: sum.splits)

lemma rerank_jobs_ranker_length:
  assumes "\<forall>job \<in> set jobs. has_prompt_keys job"
  shows "\<exists>ranked. rerank_jobs_ranker sv jobs it = Inr ranked \<and> length ranked \<le> 10"
proof -
  have "\<forall>job \<in> set (take 30 jobs). has_prompt_keys job"
    using assms by (meson in_set_takeD)
  then obtain ls where
    ls: "those_exn (map (ranker_job_line sv) (List.enumerate (Suc 0) (take 30 jobs))) = Inr ls"
    using ranker_lines_ok by blast
  show ?thesis
    unfolding rerank_jobs_ranker_def truncate_30 Let_def
    by (auto simp: ls dest: ranker_try_bounded split: sum.splits)
qed

lemma rerank_jobs_raises:
  assumes "\<forall>prompt. \<exists>e. invoke sv prompt = Inl e \<and> e \<noteq> JSONDecodeError"
  shows "rerank_jobs sv jobs it = Inr (create_fallback_ranking sv (take 30 jobs))"
proof -
  obtain e where "invoke sv (rerank_template sv (strip (intent_lines sv it))
                    (strip (job_lines sv (take 30 jobs)))) = Inl e" and "e \<noteq> JSONDecodeError"
    using assms by blast
  then show ?thesis
    unfolding rerank_jobs_def truncate_30 Let_def by simp
qed

lemma rerank_jobs_decode_error:
  assumes "\<forall>prompt. invoke sv prompt = Inl JSONDecodeError"
  shows "rerank_jobs sv jobs it = Inl UnboundLocalError"
  using assms unfolding rerank_jobs_def Let_def by simp

lemma rerank_jobs_silent:
  "\<forall>prompt. invoke sv prompt = Inr [] \<Longrightarrow>
   rerank_jobs sv jobs it = Inr (create_fallback_ranking sv (take 30 jobs))"
  unfolding rerank_jobs_def truncate_30 Let_def
  by (simp add: rank_content_empty strip_def)

lemma rerank_jobs_ranker_silent:
  assumes "\<forall>prompt. invoke sv prompt = Inr []" and "\<exists>e. json_loads sv [] = Inl e"
      and "\<forall>job \<in> set jobs. has_prompt_keys job"
  shows "rerank_jobs_ranker sv jobs it = Inr (take 10 jobs)"
proof -
  have "\<forall>job \<in> set (take 30 jobs). has_prompt_keys job"
    using assms(3) by (meson in_set_takeD)
  then obtain ls where
    ls: "those_exn (map (ranker_job_line sv) (List.enumerate (Suc 0) (take 30 jobs))) = Inr ls"
    using ranker_lines_ok by blast
  have "ranker_try sv js prompt = Inl (SOME e. json_loads sv [] = Inl e)" for js prompt
    using assms(1,2) by (auto simp: ranker_try_def intro: someI2_ex)
  then show ?thesis
    unfolding rerank_jobs_ranker_def truncate_30 Let_def
    by (simp add: ls)
qed

lemma sample_jobs_keys: "\<forall>job \<in> set sample_jobs. has_prompt_keys job"
  by (simp add: sample_jobs_def has_prompt_keys_def)

section \<open>The claims about the orchestrator\<close>

subsection \<open>C1: when the orchestrator fails and when it completes\<close>



subsection \<open>C2: the merge never regresses a field\<close>

text \<open>
  Claim C2. Merging a newly extracted intent (a dict, so its keys are distinct) into the
  session intent leaves every field whose new value is \<open>None\<close> as it was; a field that
  holds a value other than \<open>None\<close> holds one after the merge, and after any call of
  \<open>handle_user_query\<close>.
\<close>

theorem merge_monotonic:
  "(distinct (map fst new) \<and> map_of new f = Some PNone \<longrightarrow>
      map_of (merge_intent old new) f = map_of old f) \<and>
   (\<forall>v. map_of old f = Some v \<and> v \<noteq> PNone \<longrightarrow>
      (\<exists>v'. map_of (merge_intent old new) f = Some v' \<and> v' \<noteq> PNone)) \<and>
   (\<forall>v. map_of (intent (session_of u store)) f = Some v \<and> v \<noteq> PNone \<longrightarrow>
      (\<exists>v'. map_of (intent (session_of u (snd (handle_user_query env inp u store)))) f = Some v'
            \<and> v' \<noteq> PNone))"
proof (intro conjI allI impI)
  assume "distinct (map fst new) \<and> map_of new f = Some PNone"
  then show "map_of (merge_intent old new) f = map_of old f"
    by (simp add: map_of_merge_intent)
next
  fix v assume "map_of old f = Some v \<and> v \<noteq> PNone"
  then have "known old f" by (auto simp: known_def)
  then have "known (merge_intent old new) f" by (rule known_merge_intent)
  then show "\<exists>v'. map_of (merge_intent old new) f = Some v' \<and> v' \<noteq> PNone"
    by (simp add: known_def)
next
  fix v assume "map_of (intent (session_of u store)) f = Some v \<and> v \<noteq> PNone"
  then have k: "known (intent (session_of u store)) f" by (auto simp: known_def)
  obtain new' where p: "parse_intent (intent_chain env) inp = Inr new'"
    using parse_intent_total by blast
  obtain r store' where h: "handle_user_query env inp u store = (r, store')"
    by (cases "handle_user_query env inp u store")
  have "known (intent (session_of u store')) f"
    using handle_user_query_step(1) [OF p h] known_merge_intent [OF k] by simp
  then show "\<exists>v'. map_of (intent (session_of u (snd (handle_user_query env inp u store)))) f = Some v'
            \<and> v' \<noteq> PNone"
    by (simp add: h known_def)
qed

theorem merge_monotonic_witness:
  "map_of (merge_intent [(''role'', PStr ''analyst''), (''salary'', PNone)]
                        [(''role'', PNone), (''salary'', PStr ''100k'')]) ''role''
     = Some (PStr ''analyst'')"
  using merge_monotonic [of "[(''role'', PNone), (''salary'', PStr ''100k'')]" "''role''"
                            "[(''role'', PStr ''analyst''), (''salary'', PNone)]"]
  by simp

subsection \<open>C3: the extractor is total and fail-soft\<close>

text \<open>
  Claim C3. For every input text and every behaviour of the chain, \<open>parse_intent\<close>
  returns (it raises nothing) an intent with exactly the five keys role, location, salary,
  domain, remote, in this order. When the chain raises (the completion call failed, or its
  answer did not parse), and more generally whenever the chain does not return a dict,
  the intent returned is the all-\<open>None\<close> one.
\<close>

theorem parse_intent_never_raises:
  "\<exists>it. parse_intent chain user_input = Inr it \<and>
         map fst it = [''role'', ''location'', ''salary'', ''domain'', ''remote''] \<and>
         ((\<exists>e. chain user_input = Inl e) \<longrightarrow> it = none_intent) \<and>
         ((\<forall>d. chain user_input \<noteq> Inr (PDict d)) \<longrightarrow> it = none_intent)"
  by (auto simp: parse_intent_cases none_intent_def split: sum.splits pyval.splits)

theorem parse_intent_never_raises_witness:
  "parse_intent (\<lambda>_. Inl JSONDecodeError) ''any job'' = Inr none_intent \<and>
   parse_intent (\<lambda>_. Inr (PList [PStr ''role''])) ''any job'' = Inr none_intent \<and>
   parse_intent (\<lambda>_. Inr (PDict [(''role'', PStr ''chef'')])) ''any job'' =
     Inr [(''role'', PStr ''chef''), (''location'', PNone), (''salary'', PNone),
          (''domain'', PNone), (''remote'', PNone)]"
  using parse_intent_never_raises [of "\<lambda>_. Inl JSONDecodeError" "''any job''"]
        parse_intent_never_raises [of "\<lambda>_. Inr (PList [PStr ''role''])" "''any job''"]
  by (auto simp: parse_intent_cases dict_get_def dict_get_default_def)

subsection \<open>C4: what follows a terminal result\<close>




subsection \<open>C5: the five keys of a session intent\<close>

text \<open>
  Claim C5. A session created by \<open>get_session\<close> maps the five keys to \<open>None\<close>, with
  attempts 0 and an empty chat history. If the intent of every stored session has exactly the
  keys role, location, salary, domain, remote, then so it is after \<open>get_session\<close>,
  \<open>append_chat_history\<close>, \<open>reset_session\<close> and \<open>handle_user_query\<close>: no key is removed
  and none is added. (\<open>update_session\<close> of the store, which the orchestrator imports and
  never calls, is not one of its operations.)
\<close>

theorem session_intent_keys_invariant:
  "(store u = None \<longrightarrow>
      fst (get_session u store) = \<lparr>intent = none_intent, attempts = 0, chat_history = []\<rparr>) \<and>
   (store_ok store \<longrightarrow>
      store_ok (snd (get_session u store)) \<and>
      store_ok (append_chat_history u role msg store) \<and>
      store_ok (reset_session u store) \<and>
      store_ok (snd (handle_user_query env inp u store)) \<and>
      map fst (intent (session_of u (snd (handle_user_query env inp u store)))) =
        [''role'', ''location'', ''salary'', ''domain'', ''remote''])"
proof (intro conjI impI)
  assume "store u = None"
  then show "fst (get_session u store) = \<lparr>intent = none_intent, attempts = 0, chat_history = []\<rparr>"
    by (simp add: get_session_def new_session_def none_intent_def)
next
  assume ok: "store_ok store"
  show "store_ok (snd (get_session u store))" using ok by (rule store_ok_get_session)
  show "store_ok (append_chat_history u role msg store)" using ok by (rule store_ok_append)
  show "store_ok (reset_session u store)" using ok by (rule store_ok_reset)
  show "store_ok (snd (handle_user_query env inp u store))" using ok by (rule store_ok_handle)
  then show "map fst (intent (session_of u (snd (handle_user_query env inp u store)))) =
        [''role'', ''location'', ''salary'', ''domain'', ''remote'']"
    using store_ok_session_of intent_keys_ok_def by blast
qed

theorem session_intent_keys_invariant_witness:
  "store_ok Map.empty \<and>
   fst (get_session ''u'' Map.empty) = \<lparr>intent = none_intent, attempts = 0, chat_history = []\<rparr> \<and>
   store_ok (snd (handle_user_query full_chains ''data analyst in New York for 100k'' ''u'' Map.empty)) \<and>
   map fst (intent (session_of ''u''
       (snd (handle_user_query full_chains ''data analyst in New York for 100k'' ''u'' Map.empty)))) =
     [''role'', ''location'', ''salary'', ''domain'', ''remote'']"
proof -
  have ok: "store_ok Map.empty" by (simp add: store_ok_def)
  show ?thesis
    using session_intent_keys_invariant
            [of Map.empty "''u''" "''user''" PNone full_chains "''data analyst in New York for 100k''"] ok
    by simp
qed

subsection \<open>C10: the merge overwrites exactly on truthy values\<close>

text \<open>
  Claim C10. After the merge a field holds the newly extracted value if that value is
  truthy, and the old value otherwise (also when the new intent has no such key). In
  particular a newly extracted empty string leaves the field as it was: it neither replaces
  a known value nor replaces \<open>None\<close>.
\<close>

theorem merge_overwrites_iff_truthy:
  assumes "distinct (map fst new)"
  shows "map_of (merge_intent old new) f =
           (case map_of new f of
              None \<Rightarrow> map_of old f
            | Some v \<Rightarrow> if truthy v then Some v else map_of old f) \<and>
         (map_of new f = Some (PStr []) \<longrightarrow> map_of (merge_intent old new) f = map_of old f)"
  using assms by (simp add: map_of_merge_intent)

theorem merge_overwrites_iff_truthy_witness:
  "distinct (map fst [(''role'', PStr []), (''location'', PStr []), (''salary'', PStr ''90k'')]) \<and>
   map_of (merge_intent [(''role'', PStr ''analyst''), (''location'', PNone), (''salary'', PStr ''80k'')]
            [(''role'', PStr []), (''location'', PStr []), (''salary'', PStr ''90k'')]) ''role''
     = Some (PStr ''analyst'') \<and>
   map_of (merge_intent [(''role'', PStr ''analyst''), (''location'', PNone), (''salary'', PStr ''80k'')]
            [(''role'', PStr []), (''location'', PStr []), (''salary'', PStr ''90k'')]) ''location''
     = Some PNone \<and>
   map_of (merge_intent [(''role'', PStr ''analyst''), (''location'', PNone), (''salary'', PStr ''80k'')]
            [(''role'', PStr []), (''location'', PStr []), (''salary'', PStr ''90k'')]) ''salary''
     = Some (PStr ''90k'')"
  using merge_overwrites_iff_truthy
          [of "[(''role'', PStr []), (''location'', PStr []), (''salary'', PStr ''90k'')]"
              "[(''role'', PStr ''analyst''), (''location'', PNone), (''salary'', PStr ''80k'')]" "''role''"]
        merge_overwrites_iff_truthy
          [of "[(''role'', PStr []), (''location'', PStr []), (''salary'', PStr ''90k'')]"
              "[(''role'', PStr ''analyst''), (''location'', PNone), (''salary'', PStr ''80k'')]" "''location''"]
        merge_overwrites_iff_truthy
          [of "[(''role'', PStr []), (''location'', PStr []), (''salary'', PStr ''90k'')]"
              "[(''role'', PStr ''analyst''), (''location'', PNone), (''salary'', PStr ''80k'')]" "''salary''"]
  by simp

section \<open>The claims about the retriever and the re-ranker\<close>

subsection \<open>C9: the location filter\<close>

text \<open>
  Claim C9. When the target is absent (\<open>None\<close> or the empty string),
  \<open>filter_by_location\<close> returns the list it was given. For a target that is a non-empty
  string and candidates whose location is a string (or is absent, which counts as the empty
  string), it returns, in their order, exactly the candidates whose location contains the
  target as a substring or contains "Remote" as a substring, both ignoring the case of
  letters.
\<close>

theorem filter_by_location_exact:
  "filter_by_location jobs PNone = Inr jobs \<and>
   filter_by_location jobs (PStr []) = Inr jobs \<and>
   ((\<forall>job \<in> set jobs. location_is_string job) \<and> target \<noteq> [] \<longrightarrow>
      filter_by_location jobs (PStr target) =
        Inr (filter (\<lambda>job. contains_ci (location_of job) target \<or>
                           contains_ci (location_of job) ''Remote'') jobs))"
proof (intro conjI impI)
  show "filter_by_location jobs PNone = Inr jobs"
    by (simp add: filter_by_location_def)
  show "filter_by_location jobs (PStr []) = Inr jobs"
    by (simp add: filter_by_location_def)
next
  assume a: "(\<forall>job \<in> set jobs. location_is_string job) \<and> target \<noteq> []"
  have r: "py_in ''remote'' (lower hay) \<longleftrightarrow> contains_ci hay ''Remote''" for hay
    using py_in_lower [of "''Remote''" hay] by (simp only: lower_Remote)
  from a show "filter_by_location jobs (PStr target) =
        Inr (filter (\<lambda>job. contains_ci (location_of job) target \<or>
                           contains_ci (location_of job) ''Remote'') jobs)"
    by (simp add: filter_by_location_def filter_jobs_strings py_in_lower r)
qed

theorem filter_by_location_exact_witness:
  "''new york'' \<noteq> [] \<and>
   filter_by_location sample_jobs (PStr ''new york'') = Inr (take 2 sample_jobs) \<and>
   filter (\<lambda>job. contains_ci (location_of job) ''new york'' \<or>
                  contains_ci (location_of job) ''Remote'') sample_jobs = take 2 sample_jobs"
proof -
  have ev: "filter_by_location sample_jobs (PStr ''new york'') = Inr (take 2 sample_jobs)"
    by code_simp
  show ?thesis
    using filter_by_location_exact [of sample_jobs "''new york''"] sample_jobs_locations ev
    by simp
qed

subsection \<open>C6: what the retrievers request, deduplicate and return\<close>

text \<open>
  Claim C6 says that the retriever requests twice the limit, deduplicates by (title,
  company, location) and returns at most \<open>limit\<close> candidates without duplicates. Neither
  \<open>retrieve_jobs\<close> returns that: the one of \<open>job_retriever.py\<close> requests \<open>top_k\<close> hits
  and returns every hit, duplicates included, and the one of \<open>job_response_final.py\<close>
  returns the parsed answer of the model (the counterexample below). What holds is about
  the list the latter builds and hands to \<open>rerank_with_llm\<close>: for a limit of at least 1
  it requests \<open>2 * top_k\<close> hits and the list is the first \<open>top_k\<close> of the hits that are
  the first with their key, in the order of the hits; so it has at most \<open>top_k\<close>
  candidates, fewer exactly when the hits have fewer distinct keys, no two with the same
  key, each built from the first (best) hit of its key, and none made up. The retriever of
  \<open>job_retriever.py\<close> returns one candidate per hit, in order, with the keys of the hits.
\<close>

theorem dedupe_loop_candidates:
  fixes sv :: services and results :: "(document \<times> rat) list"
  assumes "1 \<le> top_k"
  defines "d \<equiv> dedupe_loop sv top_k {} [] results"
  shows "d = take (nat top_k) (map (candidate sv) (first_seen {} results)) \<and>
         length d \<le> nat top_k \<and>
         distinct (map job_key d) \<and>
         length d = min (nat top_k) (card (hit_key ` set results)) \<and>
         (\<forall>h \<in> set (first_seen {} results). find (\<lambda>x. hit_key x = hit_key h) results = Some h) \<and>
         retrieve_jobs_final sv it top_k =
           (case similarity_search_with_score sv (create_search_query_final sv it) (2 * top_k) of
              Inl e \<Rightarrow> Inl e
            | Inr hits \<Rightarrow> rerank_with_llm sv (dedupe_loop sv top_k {} [] hits) it) \<and>
         (similarity_search_with_score sv (create_search_query sv it) top_k = Inr results \<longrightarrow>
            (\<exists>jobs. retrieve_jobs sv it top_k = Inr jobs \<and> length jobs = length results \<and>
                    map job_key jobs = map hit_key results))"
proof -
  have d: "d = take (nat top_k) (map (candidate sv) (first_seen {} results))"
    unfolding d_def using assms(1) dedupe_loop_take [of "[]" top_k sv "{}" results] by simp
  have keys: "map job_key (map (candidate sv) hs) = map hit_key hs" for hs
    by (simp add: job_key_candidate)
  have "distinct (take (nat top_k) (map hit_key (first_seen {} results)))"
    using first_seen_distinct by (rule distinct_take)
  then have "distinct (map hit_key (take (nat top_k) (first_seen {} results)))"
    by (simp only: take_map)
  then have dist: "distinct (map job_key d)"
    unfolding d take_map keys .
  have len: "length d = min (nat top_k) (card (hit_key ` set results))"
    unfolding d by (simp add: length_first_seen min.commute)
  have first: "\<forall>h \<in> set (first_seen {} results). find (\<lambda>x. hit_key x = hit_key h) results = Some h"
    using first_seen_first by blast
  have final: "retrieve_jobs_final sv it top_k =
           (case similarity_search_with_score sv (create_search_query_final sv it) (2 * top_k) of
              Inl e \<Rightarrow> Inl e
            | Inr hits \<Rightarrow> rerank_with_llm sv (dedupe_loop sv top_k {} [] hits) it)"
    by (simp add: retrieve_jobs_final_def mult.commute)
  have plain: "similarity_search_with_score sv (create_search_query sv it) top_k = Inr results \<longrightarrow>
            (\<exists>jobs. retrieve_jobs sv it top_k = Inr jobs \<and> length jobs = length results \<and>
                    map job_key jobs = map hit_key results)"
    by (auto simp: retrieve_jobs_def job_keys_enumerate simp del: map_map)
  show ?thesis
    using d dist len first final plain by simp
qed

theorem dedupe_loop_candidates_witness:
  "(1 :: int) \<le> 30 \<and>
   length (dedupe_loop sample_services 30 {} [] [(sample_doc, 1 / 10), (sample_doc, 1 / 5)]) \<le> nat 30 \<and>
   distinct (map job_key
     (dedupe_loop sample_services 30 {} [] [(sample_doc, 1 / 10), (sample_doc, 1 / 5)])) \<and>
   dedupe_loop sample_services 30 {} [] [(sample_doc, 1 / 10), (sample_doc, 1 / 5)] =
     [candidate sample_services (sample_doc, 1 / 10)]"
proof -
  have one: "(1 :: int) \<le> 30" by simp
  have ev: "take (nat 30) (map (candidate sample_services)
              (first_seen {} [(sample_doc, 1 / 10), (sample_doc, 1 / 5)])) =
            [candidate sample_services (sample_doc, 1 / 10)]"
    by (simp add: hit_key_def)
  show ?thesis
    using dedupe_loop_candidates
            [OF one, of sample_services "[(sample_doc, 1 / 10), (sample_doc, 1 / 5)]" sample_intent] ev
    by simp
qed

theorem dedupe_loop_candidates_counterexample:
  "map_sum id (map job_key) (retrieve_jobs sample_services sample_intent 30) =
     Inr [(PStr ''Data Analyst'', PStr ''Meta'', PStr ''Remote''),
          (PStr ''Data Analyst'', PStr ''Meta'', PStr ''Remote'')] \<and>
   retrieve_jobs_final sample_services sample_intent 1 = Inr (PList [PInt 1, PInt 2])"
  by code_simp

subsection \<open>C7: the second re-ranker can raise\<close>

text \<open>
  Claim C7. \<open>rerank_jobs\<close> is to raise nothing and to return at most 10 items, also
  when the completion service throws. \<open>rerank_jobs\<close> of \<open>response_chain.py\<close> wraps
  its work in a \<open>try\<close> block whose handlers return the fallback ranking, but the handler
  of \<open>json.JSONDecodeError\<close> reads \<open>content\<close>, which is not bound yet when the call of
  the model is what raised: on candidates and an intent of any kind, with a service whose
  call raises \<open>json.JSONDecodeError\<close>, the function raises \<open>UnboundLocalError\<close> to its
  caller instead of returning the fallback.
\<close>

theorem rerank_jobs_unbound_content:
  "rerank_jobs decode_error_services sample_jobs sample_intent = Inl UnboundLocalError"
  by code_simp

subsection \<open>C8: the fallback on an empty answer\<close>

text \<open>
  Claim C8 says that on an empty answer of the model \<open>rerank_jobs\<close> returns the first
  \<open>min(n, 10)\<close> candidates in their order, each with a sequential final rank from 1 and a
  reason that quotes its similarity score. The re-ranker of \<open>response_chain.py\<close> does
  exactly that: entry \<open>i\<close> (from 0) is candidate \<open>i\<close> with \<open>final_rank\<close> set to
  \<open>i + 1\<close> and \<open>selection_reason\<close> set to "High similarity match (score: s)", \<open>s\<close>
  its similarity score (or N/A). The re-ranker of \<open>job_ranker.py\<close> returns the same
  first \<open>min(n, 10)\<close> candidates as they are, with no rank and no reason added (the
  counterexample below).
\<close>

theorem rerank_fallback_on_empty:
  assumes silent: "\<forall>prompt. invoke sv prompt = Inr []"
  shows "(\<exists>ranked. rerank_jobs sv jobs it = Inr ranked \<and>
            length ranked = min (length jobs) 10 \<and>
            (\<forall>i < length ranked. ranked ! i = fallback_entry sv i (jobs ! i))) \<and>
         ((\<forall>job \<in> set jobs. has_prompt_keys job) \<and> (\<exists>e. json_loads sv [] = Inl e) \<longrightarrow>
            rerank_jobs_ranker sv jobs it = Inr (take 10 jobs))"
proof (intro conjI impI)
  let ?ranked = "create_fallback_ranking sv (take 30 jobs)"
  have r: "rerank_jobs sv jobs it = Inr ?ranked"
    using silent by (rule rerank_jobs_silent)
  have len: "length ?ranked = min (length jobs) 10"
    by (simp add: length_fallback)
  have nth: "?ranked ! i = fallback_entry sv i (jobs ! i)" if "i < length ?ranked" for i
  proof -
    from that have i: "i < min (length (take 30 jobs)) 10" by (simp add: length_fallback)
    then have "?ranked ! i = fallback_entry sv i (take 30 jobs ! i)" by (rule fallback_nth)
    moreover from i have "take 30 jobs ! i = jobs ! i" by simp
    ultimately show ?thesis by simp
  qed
  show "\<exists>ranked. rerank_jobs sv jobs it = Inr ranked \<and>
            length ranked = min (length jobs) 10 \<and>
            (\<forall>i < length ranked. ranked ! i = fallback_entry sv i (jobs ! i))"
    using r len nth by blast
next
  assume "(\<forall>job \<in> set jobs. has_prompt_keys job) \<and> (\<exists>e. json_loads sv [] = Inl e)"
  then show "rerank_jobs_ranker sv jobs it = Inr (take 10 jobs)"
    using silent rerank_jobs_ranker_silent by blast
qed

theorem rerank_fallback_on_empty_witness:
  "rerank_jobs_ranker silent_services sample_jobs sample_intent = Inr (take 10 sample_jobs) \<and>
   (\<exists>ranked. rerank_jobs silent_services sample_jobs sample_intent = Inr ranked \<and>
             length ranked = min (length sample_jobs) 10 \<and>
             ranked ! 0 = fallback_entry silent_services 0 (sample_jobs ! 0))"
proof -
  have silent: "\<forall>prompt. invoke silent_services prompt = Inr []"
    by (simp add: silent_services_def)
  have loads: "\<exists>e. json_loads silent_services [] = Inl e"
    by (simp add: silent_services_def sample_services_def)
  have pos: "0 < min (length sample_jobs) 10"
    by (simp add: sample_jobs_def)
  show ?thesis
    using rerank_fallback_on_empty [OF silent, of sample_jobs sample_intent]
          sample_jobs_keys loads pos
    by auto
qed

theorem rerank_fallback_on_empty_counterexample:
  "rerank_jobs_ranker silent_services sample_jobs sample_intent = Inr sample_jobs \<and>
   map_of (sample_jobs ! 0) ''final_rank'' = None \<and>
   map_of (sample_jobs ! 0) ''selection_reason'' = None"
  by code_simp

end
